theory Spec2Isabelle
  imports Main "HOL-Library.Char_ord" "HOL-Library.List_Lexorder"
begin

section \<open>Errors\<close>

text \<open>
  The Go \<open>error\<close> values that occur in \<open>shared/interface.go\<close>.  The first four are the
  errors of \<open>encoding/json\<close>: a \<open>*json.SyntaxError\<close> (its message and offset are functions
  of the blob alone and are not kept), a \<open>*json.UnmarshalTypeError\<close> with its \<open>Value\<close> and
  \<open>Type\<close>, and a \<open>*json.UnsupportedTypeError\<close> with its type.  \<open>OutsideModel\<close> is returned
  where the model of \<open>encoding/json\<close> below makes no statement (non-ASCII text, fractional
  numbers, integers that a float64 does not hold exactly).  \<open>ErrorString\<close> is an error
  made by \<open>fmt.Errorf\<close> or \<open>errors.New\<close> from a plain message, \<open>Wrapf p e\<close> is
  \<open>fmt.Errorf(p + ": %w", e)\<close>, and \<open>StatusError e\<close> is the error a gRPC client receives
  when the handler on the other side returned \<open>e\<close>: a status whose description is the
  message of \<open>e\<close>.  \<open>NilDereference\<close> is the run-time panic of a field access through a
  nil pointer.
\<close>

datatype error =
    SyntaxError
  | UnmarshalTypeError string string
  | UnsupportedTypeError string
  | OutsideModel
  | ErrorString string
  | Wrapf string error
  | StatusError error
  | NilDereference

type_synonym blob = string

abbreviation dq :: char where "dq \<equiv> CHR 0x22"
abbreviation bsl :: char where "bsl \<equiv> CHR 0x5C"

section \<open>A model of encoding/json: the text layer\<close>

text \<open>
  The source calls \<open>json.Marshal\<close> and \<open>json.Unmarshal\<close> of the Go standard library.
  They are modelled in two layers.  This layer is JSON text: a tree of JSON values, the
  compact rendering that \<open>json.Marshal\<close> writes, and a parser for the whole JSON grammar
  with white space and with the decoder's limit on nesting.  Numbers are integer literals;
  a literal with a fraction or an exponent, the literal \<open>-0\<close>, and every byte or escape
  above 0x7F are \<open>OutsideModel\<close>.
\<close>

datatype json =
    JNull
  | JBool bool
  | JNum int
  | JStr string
  | JArr "json list"
  | JObj "(string \<times> json) list"

subsection \<open>Rendering\<close>

definition digit_char :: "nat \<Rightarrow> char" where
  "digit_char n = ''0123456789'' ! n"

definition hex_char :: "nat \<Rightarrow> char" where
  "hex_char n = ''0123456789abcdef'' ! n"

function show_nat :: "nat \<Rightarrow> string" where
  "show_nat n = (if n < 10 then [digit_char n] else show_nat (n div 10) @ [digit_char (n mod 10)])"
  by pat_completeness auto
termination
  by (relation "measure id") auto

declare show_nat.simps [simp del]

definition show_int :: "int \<Rightarrow> string" where
  "show_int i = (if i < 0 then CHR ''-'' # show_nat (nat (- i)) else show_nat (nat i))"

text \<open>
  String escaping as \<open>json.Marshal\<close> does it (HTML escaping on): the quote and the
  backslash, the short escapes of backspace, form feed, newline, carriage return and tab,
  and \<open>\u00XX\<close> for the other control bytes and for \<open><\<close>, \<open>>\<close> and \<open>&\<close>.
\<close>

definition escape_char :: "char \<Rightarrow> string" where
  "escape_char c =
     (if c = dq then [bsl, dq]
      else if c = bsl then [bsl, bsl]
      else if c = CHR 0x08 then [bsl, CHR ''b'']
      else if c = CHR 0x0C then [bsl, CHR ''f'']
      else if c = CHR 0x0A then [bsl, CHR ''n'']
      else if c = CHR 0x0D then [bsl, CHR ''r'']
      else if c = CHR 0x09 then [bsl, CHR ''t'']
      else if (of_char c :: nat) < 32 \<or> c = CHR ''<'' \<or> c = CHR ''>'' \<or> c = CHR ''&''
        then [bsl, CHR ''u'', CHR ''0'', CHR ''0'',
              hex_char ((of_char c :: nat) div 16), hex_char ((of_char c :: nat) mod 16)]
      else [c])"

definition quote :: "string \<Rightarrow> string" where
  "quote s = dq # concat (map escape_char s) @ [dq]"

fun render :: "json \<Rightarrow> string"
  and render_elems :: "json list \<Rightarrow> string"
  and render_members :: "(string \<times> json) list \<Rightarrow> string"
where
  "render JNull = ''null''"
| "render (JBool b) = (if b then ''true'' else ''false'')"
| "render (JNum n) = show_int n"
| "render (JStr s) = quote s"
| "render (JArr xs) = CHR ''['' # render_elems xs @ '']''"
| "render (JObj ms) = CHR ''{'' # render_members ms @ ''}''"
| "render_elems [] = []"
| "render_elems [x] = render x"
| "render_elems (x # y # ys) = render x @ CHR '','' # render_elems (y # ys)"
| "render_members [] = []"
| "render_members [(k, v)] = quote k @ CHR '':'' # render v"
| "render_members ((k, v) # m # ms) =
     quote k @ CHR '':'' # render v @ CHR '','' # render_members (m # ms)"

subsection \<open>Parsing\<close>

definition is_ws :: "char \<Rightarrow> bool" where
  "is_ws c \<longleftrightarrow> c = CHR '' '' \<or> c = CHR 0x09 \<or> c = CHR 0x0A \<or> c = CHR 0x0D"

definition skip_ws :: "string \<Rightarrow> string" where
  "skip_ws s = dropWhile is_ws s"

definition is_digit :: "char \<Rightarrow> bool" where
  "is_digit c \<longleftrightarrow> 48 \<le> (of_char c :: nat) \<and> (of_char c :: nat) \<le> 57"

definition digit_val :: "char \<Rightarrow> nat" where
  "digit_val c = of_char c - 48"

definition hex_val :: "char \<Rightarrow> nat option" where
  "hex_val c =
     (let n = (of_char c :: nat) in
      if 48 \<le> n \<and> n \<le> 57 then Some (n - 48)
      else if 97 \<le> n \<and> n \<le> 102 then Some (n - 87)
      else if 65 \<le> n \<and> n \<le> 70 then Some (n - 55)
      else None)"

fun digits_val :: "nat \<Rightarrow> string \<Rightarrow> nat" where
  "digits_val acc [] = acc"
| "digits_val acc (c # cs) = digits_val (10 * acc + digit_val c) cs"

text \<open>
  \<open>parse_nat\<close> reads the digits of a JSON integer: a single \<open>0\<close>, or a non-zero digit
  followed by digits.  A leading zero followed by a digit is a syntax error.
\<close>

definition parse_nat :: "string \<Rightarrow> error + (nat \<times> string)" where
  "parse_nat s =
     (let ds = takeWhile is_digit s; r = dropWhile is_digit s in
      if ds = [] then Inl SyntaxError
      else if hd ds = CHR ''0'' \<and> tl ds \<noteq> [] then Inl SyntaxError
      else if r \<noteq> [] \<and> (hd r = CHR ''.'' \<or> hd r = CHR ''e'' \<or> hd r = CHR ''E'')
        then Inl OutsideModel
      else Inr (digits_val 0 ds, r))"

definition parse_num :: "string \<Rightarrow> error + (int \<times> string)" where
  "parse_num s =
     (if s \<noteq> [] \<and> hd s = CHR ''-'' then
        (case parse_nat (tl s) of
           Inl e \<Rightarrow> Inl e
         | Inr (n, r) \<Rightarrow> if n = 0 then Inl OutsideModel else Inr (- int n, r))
      else
        (case parse_nat s of
           Inl e \<Rightarrow> Inl e
         | Inr (n, r) \<Rightarrow> Inr (int n, r)))"

text \<open>
  \<open>parse_str\<close> reads a string body after its opening quote, up to and including the
  closing quote, and returns the unescaped text and the rest of the input.
\<close>

definition unescape_u :: "char \<Rightarrow> char \<Rightarrow> char \<Rightarrow> char \<Rightarrow> error + char" where
  "unescape_u a b c d =
     (case (hex_val a, hex_val b, hex_val c, hex_val d) of
        (Some h3, Some h2, Some h1, Some h0) \<Rightarrow>
          (let n = 4096 * h3 + 256 * h2 + 16 * h1 + h0 in
           if n < 128 then Inr (char_of n) else Inl OutsideModel)
      | _ \<Rightarrow> Inl SyntaxError)"

definition unescape_short :: "char \<Rightarrow> char option" where
  "unescape_short e =
     (if e = dq then Some dq
      else if e = bsl then Some bsl
      else if e = CHR ''/'' then Some (CHR ''/'')
      else if e = CHR ''b'' then Some (CHR 0x08)
      else if e = CHR ''f'' then Some (CHR 0x0C)
      else if e = CHR ''n'' then Some (CHR 0x0A)
      else if e = CHR ''r'' then Some (CHR 0x0D)
      else if e = CHR ''t'' then Some (CHR 0x09)
      else None)"

definition cons_str :: "char \<Rightarrow> error + (string \<times> string) \<Rightarrow> error + (string \<times> string)" where
  "cons_str c r = (case r of Inl e \<Rightarrow> Inl e | Inr (s, rest) \<Rightarrow> Inr (c # s, rest))"

function parse_str :: "string \<Rightarrow> error + (string \<times> string)" where
  "parse_str s =
     (case s of
        [] \<Rightarrow> Inl SyntaxError
      | c # cs \<Rightarrow>
          if c = dq then Inr ([], cs)
          else if c = bsl then
            (case cs of
               [] \<Rightarrow> Inl SyntaxError
             | e # es \<Rightarrow>
                 if e = CHR ''u'' then
                   (if length es < 4 then Inl SyntaxError
                    else (case unescape_u (es ! 0) (es ! 1) (es ! 2) (es ! 3) of
                            Inl err \<Rightarrow> Inl err
                          | Inr ch \<Rightarrow> cons_str ch (parse_str (drop 4 es))))
                 else (case unescape_short e of
                         None \<Rightarrow> Inl SyntaxError
                       | Some ch \<Rightarrow> cons_str ch (parse_str es)))
          else if (of_char c :: nat) < 32 then Inl SyntaxError
          else if 128 \<le> (of_char c :: nat) then Inl OutsideModel
          else cons_str c (parse_str cs))"
  by pat_completeness auto
termination
  by (relation "measure length") auto

declare parse_str.simps [simp del]

text \<open>
  The recursive-descent parser.  Every call spends one unit of fuel; a call with no
  fuel left makes no statement.  \<open>parse_json\<close> supplies \<open>2 * length s + 2\<close>, since of any
  two nested calls one consumes a byte.  The second argument is the number of arrays and
  objects that may still be opened: the decoder of \<open>encoding/json\<close> rejects a value
  nested deeper than 10000 as a syntax error.
\<close>

fun parse_value :: "nat \<Rightarrow> nat \<Rightarrow> string \<Rightarrow> error + (json \<times> string)"
  and parse_elems :: "nat \<Rightarrow> nat \<Rightarrow> string \<Rightarrow> error + (json list \<times> string)"
  and parse_members :: "nat \<Rightarrow> nat \<Rightarrow> string \<Rightarrow> error + ((string \<times> json) list \<times> string)"
where
  "parse_value 0 d s = Inl OutsideModel"
| "parse_value (Suc f) d s =
     (let t = skip_ws s in
      if t = [] then Inl SyntaxError
      else if hd t = CHR ''{'' then
        (if d = 0 then Inl SyntaxError
         else
           (let u = skip_ws (tl t) in
            if u \<noteq> [] \<and> hd u = CHR ''}'' then Inr (JObj [], tl u)
            else (case parse_members f (d - 1) u of
                    Inl e \<Rightarrow> Inl e
                  | Inr (ms, r) \<Rightarrow> Inr (JObj ms, r))))
      else if hd t = CHR ''['' then
        (if d = 0 then Inl SyntaxError
         else
           (let u = skip_ws (tl t) in
            if u \<noteq> [] \<and> hd u = CHR '']'' then Inr (JArr [], tl u)
            else (case parse_elems f (d - 1) u of
                    Inl e \<Rightarrow> Inl e
                  | Inr (xs, r) \<Rightarrow> Inr (JArr xs, r))))
      else if hd t = dq then
        (case parse_str (tl t) of
           Inl e \<Rightarrow> Inl e
         | Inr (str, r) \<Rightarrow> Inr (JStr str, r))
      else if take 4 t = ''null'' then Inr (JNull, drop 4 t)
      else if take 4 t = ''true'' then Inr (JBool True, drop 4 t)
      else if take 5 t = ''false'' then Inr (JBool False, drop 5 t)
      else if hd t = CHR ''-'' \<or> is_digit (hd t) then
        (case parse_num t of
           Inl e \<Rightarrow> Inl e
         | Inr (n, r) \<Rightarrow> Inr (JNum n, r))
      else Inl SyntaxError)"
| "parse_elems 0 d s = Inl OutsideModel"
| "parse_elems (Suc f) d s =
     (case parse_value f d s of
        Inl e \<Rightarrow> Inl e
      | Inr (v, r) \<Rightarrow>
          (let t = skip_ws r in
           if t = [] then Inl SyntaxError
           else if hd t = CHR '','' then
             (case parse_elems f d (tl t) of
                Inl e \<Rightarrow> Inl e
              | Inr (vs, r') \<Rightarrow> Inr (v # vs, r'))
           else if hd t = CHR '']'' then Inr ([v], tl t)
           else Inl SyntaxError))"
| "parse_members 0 d s = Inl OutsideModel"
| "parse_members (Suc f) d s =
     (let t = skip_ws s in
      if t = [] \<or> hd t \<noteq> dq then Inl SyntaxError
      else
        (case parse_str (tl t) of
           Inl e \<Rightarrow> Inl e
         | Inr (k, r) \<Rightarrow>
             (let u = skip_ws r in
              if u = [] \<or> hd u \<noteq> CHR '':'' then Inl SyntaxError
              else
                (case parse_value f d (tl u) of
                   Inl e \<Rightarrow> Inl e
                 | Inr (v, r') \<Rightarrow>
                     (let w = skip_ws r' in
                      if w = [] then Inl SyntaxError
                      else if hd w = CHR '','' then
                        (case parse_members f d (tl w) of
                           Inl e \<Rightarrow> Inl e
                         | Inr (ms, r'') \<Rightarrow> Inr ((k, v) # ms, r''))
                      else if hd w = CHR ''}'' then Inr ([(k, v)], tl w)
                      else Inl SyntaxError)))))"

definition maxNestingDepth :: nat where
  "maxNestingDepth = 10000"

definition parse_json :: "blob \<Rightarrow> error + json" where
  "parse_json s =
     (case parse_value (2 * length s + 2) maxNestingDepth s of
        Inl e \<Rightarrow> Inl e
      | Inr (j, r) \<Rightarrow> if skip_ws r = [] then Inr j else Inl SyntaxError)"

section \<open>A model of encoding/json: Go values\<close>

text \<open>
  The values an \<open>interface{}\<close> holds in this program.  \<open>json.Unmarshal\<close> into an
  \<open>interface{}\<close> produces \<open>GNil\<close>, \<open>GBool\<close>, \<open>GFloat\<close> (a float64; the model
  has the integral ones), \<open>GStr\<close>, \<open>GSlice\<close> and \<open>GMap\<close> only.  A caller can also store
  a Go \<open>int\<close> (\<open>GInt\<close>), a nil slice or a nil map, and values that \<open>json.Marshal\<close>
  rejects, of which \<open>GChan\<close> (a \<open>chan int\<close>) is the representative.

  A Go map with string keys is the list of its entries in increasing key order, the
  order in which \<open>json.Marshal\<close> writes them; \<open>None\<close> is the nil map.  A Go slice is a
  list.
\<close>

datatype gval =
    GNil
  | GBool bool
  | GInt int
  | GFloat int
  | GStr string
  | GSlice "gval list"
  | GNilSlice
  | GMap "(string \<times> gval) list"
  | GNilMap
  | GChan

type_synonym gmap = "(string \<times> gval) list option"

definition box_map :: "gmap \<Rightarrow> gval" where
  "box_map m = (case m of None \<Rightarrow> GNilMap | Some kvs \<Rightarrow> GMap kvs)"

definition ascii :: "string \<Rightarrow> bool" where
  "ascii s = list_all (\<lambda>c. (of_char c :: nat) < 128) s"

definition float_exact :: "int \<Rightarrow> bool" where
  "float_exact n \<longleftrightarrow> - 9007199254740992 \<le> n \<and> n \<le> 9007199254740992"

subsection \<open>json.Marshal\<close>

fun to_json :: "gval \<Rightarrow> error + json"
  and to_json_list :: "gval list \<Rightarrow> error + json list"
  and to_json_members :: "(string \<times> gval) list \<Rightarrow> error + (string \<times> json) list"
where
  "to_json GNil = Inr JNull"
| "to_json (GBool b) = Inr (JBool b)"
| "to_json (GInt n) = Inr (JNum n)"
| "to_json (GFloat n) = (if float_exact n then Inr (JNum n) else Inl OutsideModel)"
| "to_json (GStr s) = (if ascii s then Inr (JStr s) else Inl OutsideModel)"
| "to_json (GSlice xs) =
     (case to_json_list xs of Inl e \<Rightarrow> Inl e | Inr js \<Rightarrow> Inr (JArr js))"
| "to_json GNilSlice = Inr JNull"
| "to_json (GMap kvs) =
     (case to_json_members kvs of Inl e \<Rightarrow> Inl e | Inr ms \<Rightarrow> Inr (JObj ms))"
| "to_json GNilMap = Inr JNull"
| "to_json GChan = Inl (UnsupportedTypeError ''chan int'')"
| "to_json_list [] = Inr []"
| "to_json_list (x # xs) =
     (case to_json x of
        Inl e \<Rightarrow> Inl e
      | Inr j \<Rightarrow> (case to_json_list xs of Inl e \<Rightarrow> Inl e | Inr js \<Rightarrow> Inr (j # js)))"
| "to_json_members [] = Inr []"
| "to_json_members ((k, v) # kvs) =
     (if \<not> ascii k then Inl OutsideModel
      else (case to_json v of
              Inl e \<Rightarrow> Inl e
            | Inr j \<Rightarrow> (case to_json_members kvs of
                          Inl e \<Rightarrow> Inl e
                        | Inr ms \<Rightarrow> Inr ((k, j) # ms))))"

definition json_Marshal :: "gval \<Rightarrow> error + blob" where
  "json_Marshal v = (case to_json v of Inl e \<Rightarrow> Inl e | Inr j \<Rightarrow> Inr (render j))"

definition json_Marshal_map :: "gmap \<Rightarrow> error + blob" where
  "json_Marshal_map m = json_Marshal (box_map m)"

record Retries =
  Count :: int
  Delay :: string

text \<open>
  \<open>json.Marshal\<close> of a \<open>*Retries\<close>: \<open>null\<close> for the nil pointer, else the object with the
  two tagged fields \<open>count\<close> and \<open>delay\<close>.
\<close>

definition json_Marshal_retries :: "Retries option \<Rightarrow> error + blob" where
  "json_Marshal_retries r =
     (case r of
        None \<Rightarrow> Inr ''null''
      | Some x \<Rightarrow>
          if ascii (Delay x)
          then Inr (render (JObj [(''count'', JNum (Count x)), (''delay'', JStr (Delay x))]))
          else Inl OutsideModel)"

subsection \<open>json.Unmarshal\<close>

definition json_kind :: "json \<Rightarrow> string" where
  "json_kind j =
     (case j of
        JNull \<Rightarrow> ''null''
      | JBool b \<Rightarrow> ''bool''
      | JNum n \<Rightarrow> ''number''
      | JStr s \<Rightarrow> ''string''
      | JArr xs \<Rightarrow> ''array''
      | JObj ms \<Rightarrow> ''object'')"

text \<open>\<open>m[k] = v\<close> on the sorted entry list.\<close>

fun map_insert :: "string \<Rightarrow> 'v \<Rightarrow> (string \<times> 'v) list \<Rightarrow> (string \<times> 'v) list" where
  "map_insert k v [] = [(k, v)]"
| "map_insert k v ((k', v') # r) =
     (if k = k' then (k, v) # r
      else if k < k' then (k, v) # (k', v') # r
      else (k', v') # map_insert k v r)"

text \<open>
  Decoding into an \<open>interface{}\<close>: a number becomes a float64, an array a
  \<open>[]interface{}\<close>, an object a \<open>map[string]interface{}\<close> filled member by member in text
  order, so that a repeated key keeps its last value.
\<close>

fun from_json :: "json \<Rightarrow> error + gval"
  and from_json_list :: "json list \<Rightarrow> error + gval list"
  and from_json_members ::
    "(string \<times> json) list \<Rightarrow> (string \<times> gval) list \<Rightarrow> error + (string \<times> gval) list"
where
  "from_json JNull = Inr GNil"
| "from_json (JBool b) = Inr (GBool b)"
| "from_json (JNum n) = (if float_exact n then Inr (GFloat n) else Inl OutsideModel)"
| "from_json (JStr s) = Inr (GStr s)"
| "from_json (JArr xs) =
     (case from_json_list xs of Inl e \<Rightarrow> Inl e | Inr vs \<Rightarrow> Inr (GSlice vs))"
| "from_json (JObj ms) =
     (case from_json_members ms [] of Inl e \<Rightarrow> Inl e | Inr kvs \<Rightarrow> Inr (GMap kvs))"
| "from_json_list [] = Inr []"
| "from_json_list (x # xs) =
     (case from_json x of
        Inl e \<Rightarrow> Inl e
      | Inr v \<Rightarrow> (case from_json_list xs of Inl e \<Rightarrow> Inl e | Inr vs \<Rightarrow> Inr (v # vs)))"
| "from_json_members [] acc = Inr acc"
| "from_json_members ((k, j) # ms) acc =
     (case from_json j of
        Inl e \<Rightarrow> Inl e
      | Inr v \<Rightarrow> from_json_members ms (map_insert k v acc))"

text \<open>\<open>json.Unmarshal(b, &v)\<close> for \<open>var v interface{}\<close>.\<close>

definition json_Unmarshal :: "blob \<Rightarrow> error + gval" where
  "json_Unmarshal b = (case parse_json b of Inl e \<Rightarrow> Inl e | Inr j \<Rightarrow> from_json j)"

text \<open>
  \<open>json.Unmarshal(b, &m)\<close> for \<open>var m map[string]interface{}\<close>, nil before the call:
  \<open>null\<close> leaves the nil map, an object makes a map, every other JSON value is an
  \<open>UnmarshalTypeError\<close>.
\<close>

definition json_Unmarshal_map :: "blob \<Rightarrow> error + gmap" where
  "json_Unmarshal_map b =
     (case parse_json b of
        Inl e \<Rightarrow> Inl e
      | Inr j \<Rightarrow>
          (case j of
             JNull \<Rightarrow> Inr None
           | JObj ms \<Rightarrow>
               (case from_json_members ms [] of
                  Inl e \<Rightarrow> Inl e
                | Inr kvs \<Rightarrow> Inr (Some kvs))
           | _ \<Rightarrow> Inl (UnmarshalTypeError (json_kind j) ''map[string]interface {}'')))"

text \<open>
  Decoding an object into the struct \<open>Retries\<close>.  A key selects a field when it equals
  the field's tag up to ASCII case; other keys are skipped.  \<open>null\<close> leaves a field as it
  is.  A value of the wrong kind, or a number outside the 64-bit \<open>int\<close>, is an
  \<open>UnmarshalTypeError\<close>; the decoder goes on, and the call returns the first such error.
\<close>

definition to_lower :: "char \<Rightarrow> char" where
  "to_lower c =
     (if 65 \<le> (of_char c :: nat) \<and> (of_char c :: nat) \<le> 90
      then char_of ((of_char c :: nat) + 32) else c)"

definition equal_fold :: "string \<Rightarrow> string \<Rightarrow> bool" where
  "equal_fold k name \<longleftrightarrow> map to_lower k = name"

definition int64_range :: "int \<Rightarrow> bool" where
  "int64_range n \<longleftrightarrow> - 9223372036854775808 \<le> n \<and> n \<le> 9223372036854775807"

fun decode_retries :: "(string \<times> json) list \<Rightarrow> Retries \<Rightarrow> error + Retries" where
  "decode_retries [] r = Inr r"
| "decode_retries ((k, j) # ms) r =
     (if equal_fold k ''count'' then
        (case j of
           JNum n \<Rightarrow>
             if int64_range n then decode_retries ms (r\<lparr>Count := n\<rparr>)
             else Inl (UnmarshalTypeError (''number '' @ show_int n) ''int'')
         | JNull \<Rightarrow> decode_retries ms r
         | _ \<Rightarrow> Inl (UnmarshalTypeError (json_kind j) ''int''))
      else if equal_fold k ''delay'' then
        (case j of
           JStr s \<Rightarrow> decode_retries ms (r\<lparr>Delay := s\<rparr>)
         | JNull \<Rightarrow> decode_retries ms r
         | _ \<Rightarrow> Inl (UnmarshalTypeError (json_kind j) ''string''))
      else decode_retries ms r)"

text \<open>\<open>json.Unmarshal(b, &r)\<close> for \<open>var r *Retries\<close>, nil before the call.\<close>

definition json_Unmarshal_retries :: "blob \<Rightarrow> error + Retries option" where
  "json_Unmarshal_retries b =
     (case parse_json b of
        Inl e \<Rightarrow> Inl e
      | Inr j \<Rightarrow>
          (case j of
             JNull \<Rightarrow> Inr None
           | JObj ms \<Rightarrow>
               (case decode_retries ms \<lparr>Count = 0, Delay = []\<rparr> of
                  Inl e \<Rightarrow> Inl e
                | Inr r \<Rightarrow> Inr (Some r))
           | _ \<Rightarrow> Inl (UnmarshalTypeError (json_kind j) ''shared.Retries'')))"

section \<open>The data model\<close>

text \<open>
  \<open>Node\<close> and \<open>ExecutionContext\<close> of \<open>shared/interface.go\<close>, and the messages
  \<open>proto.Node\<close>, \<open>proto.ExecutionContext\<close>, \<open>proto.ExecuteRequest\<close> and
  \<open>proto.ExecuteResponse\<close> with the fields the source reads and writes.  \<open>Do\<close> and
  \<open>OnFailure\<close> are slices of pointers, so an element may be nil (\<open>None\<close>).
\<close>

datatype Node = Node
  (ID: string)
  (Uses: string)
  (With: gmap)
  (Needs: "string list")
  (Do: "Node option list")
  (Retries: "Retries option")
  (OnFailure: "Node option list")

datatype PNode = PNode
  (pId: string)
  (pUses: string)
  (pWith: blob)
  (pNeeds: "string list")
  (pDo: "PNode option list")
  (pRetries: blob)
  (pOnFailure: "PNode option list")

record ExecutionContext =
  TriggerData :: gmap
  NodeOutputs :: gmap
  Secrets :: "(string \<times> string) list option"
  CurrentItem :: gval
  FailureData :: gmap

record PExecutionContext =
  pTriggerData :: blob
  pNodeOutputs :: blob
  pSecrets :: "(string \<times> string) list option"
  pCurrentItem :: blob
  pFailureData :: blob

record PExecuteRequest =
  reqNode :: "PNode option"
  reqContext :: "PExecutionContext option"

record PExecuteResponse =
  Result :: blob

text \<open>The zero values \<open>Node{}\<close> and \<open>ExecutionContext{}\<close>.\<close>

definition zero_Node :: Node where
  "zero_Node = Node [] [] None [] [] None []"


section \<open>The conversion functions\<close>

text \<open>
  \<open>toProtoNode\<close>, with its two loops over \<open>node.Do\<close> and \<open>node.OnFailure\<close> as
  \<open>toProtoNodes\<close>: the first error ends the call.
\<close>

fun toProtoNode :: "Node option \<Rightarrow> error + PNode option"
  and toProtoNodes :: "Node option list \<Rightarrow> error + PNode option list"
where
  "toProtoNode None = Inr None"
| "toProtoNode (Some (Node i u w ns d r f)) =
     (case json_Marshal_map w of
        Inl err \<Rightarrow> Inl err
      | Inr with \<Rightarrow>
          (case toProtoNodes d of
             Inl err \<Rightarrow> Inl err
           | Inr doNodes \<Rightarrow>
               (case json_Marshal_retries r of
                  Inl err \<Rightarrow> Inl err
                | Inr retries \<Rightarrow>
                    (case toProtoNodes f of
                       Inl err \<Rightarrow> Inl err
                     | Inr onFailureNodes \<Rightarrow>
                         Inr (Some (PNode i u with ns doNodes retries onFailureNodes))))))"
| "toProtoNodes [] = Inr []"
| "toProtoNodes (n # rest) =
     (case toProtoNode n of
        Inl err \<Rightarrow> Inl err
      | Inr pn \<Rightarrow>
          (case toProtoNodes rest of
             Inl err \<Rightarrow> Inl err
           | Inr pns \<Rightarrow> Inr (pn # pns)))"

text \<open>
  \<open>fromProtoNode\<close>; each decoded child is appended as \<open>&dn\<close>, a non-nil pointer.  The
  \<open>Retries\<close> blob is decoded only when it is non-empty and not the text \<open>null\<close>.
\<close>

fun fromProtoNode :: "PNode option \<Rightarrow> error + Node"
  and fromProtoNodes :: "PNode option list \<Rightarrow> error + Node option list"
where
  "fromProtoNode None = Inr zero_Node"
| "fromProtoNode (Some (PNode i u w ns d r f)) =
     (case json_Unmarshal_map w of
        Inl err \<Rightarrow> Inl err
      | Inr with \<Rightarrow>
          (case fromProtoNodes d of
             Inl err \<Rightarrow> Inl err
           | Inr doNodes \<Rightarrow>
               (case (if length r > 0 \<and> r \<noteq> ''null''
                      then json_Unmarshal_retries r else Inr None) of
                  Inl err \<Rightarrow> Inl err
                | Inr retries \<Rightarrow>
                    (case fromProtoNodes f of
                       Inl err \<Rightarrow> Inl err
                     | Inr onFailureNodes \<Rightarrow>
                         Inr (Node i u with ns doNodes retries onFailureNodes)))))"
| "fromProtoNodes [] = Inr []"
| "fromProtoNodes (p # rest) =
     (case fromProtoNode p of
        Inl err \<Rightarrow> Inl err
      | Inr dn \<Rightarrow>
          (case fromProtoNodes rest of
             Inl err \<Rightarrow> Inl err
           | Inr dns \<Rightarrow> Inr (Some dn # dns)))"



text \<open>
  \<open>fromProtoExecutionContext\<close> reads the fields of \<open>pCtx\<close> directly, which panics on a
  nil pointer.  All four blobs are decoded into variables of type
  \<open>map[string]interface{}\<close>; the one stored in \<open>CurrentItem\<close>, an \<open>interface{}\<close>, is boxed.
\<close>

definition fromProtoExecutionContext ::
  "PExecutionContext option \<Rightarrow> error + ExecutionContext" where
  "fromProtoExecutionContext p =
     (case p of
        None \<Rightarrow> Inl NilDereference
      | Some pCtx \<Rightarrow>
          (case (if length (pTriggerData pCtx) > 0
                 then json_Unmarshal_map (pTriggerData pCtx) else Inr None) of
             Inl err \<Rightarrow> Inl err
           | Inr triggerData \<Rightarrow>
               (case (if length (pNodeOutputs pCtx) > 0
                      then json_Unmarshal_map (pNodeOutputs pCtx) else Inr None) of
                  Inl err \<Rightarrow> Inl err
                | Inr nodeOutputs \<Rightarrow>
                    (case (if length (pCurrentItem pCtx) > 0
                           then json_Unmarshal_map (pCurrentItem pCtx) else Inr None) of
                       Inl err \<Rightarrow> Inl err
                     | Inr currentItem \<Rightarrow>
                         (case (if length (pFailureData pCtx) > 0
                                then json_Unmarshal_map (pFailureData pCtx) else Inr None) of
                            Inl err \<Rightarrow> Inl err
                          | Inr failureData \<Rightarrow>
                              Inr \<lparr>TriggerData = triggerData, NodeOutputs = nodeOutputs,
                                   Secrets = pSecrets pCtx, CurrentItem = box_map currentItem,
                                   FailureData = failureData\<rparr>)))))"

definition fromProtoValue :: "blob \<Rightarrow> error + gval" where
  "fromProtoValue b = (if length b = 0 then Inr GNil else json_Unmarshal b)"



section \<open>The go-plugin wrapper\<close>

text \<open>
  The interface \<open>NodeExecutor\<close> is a record of its two methods.  \<open>Server\<close> and \<open>Client\<close>
  are the net/rpc entry points of \<open>NodeExecutorPlugin\<close>: they ignore the plugin and their
  arguments.  \<open>GRPCServer\<close> registers the service on the \<open>grpc.Server\<close>, here the slot that
  holds the registered implementation, and returns a nil error; \<open>GRPCClient\<close> returns
  the client object built on the connection's stub.
\<close>

record NodeExecutor =
  Execute :: "Node \<Rightarrow> ExecutionContext \<Rightarrow> error + gval"
  GetCapabilities :: "error + string list"

type_synonym stub = "PExecuteRequest \<Rightarrow> error + PExecuteResponse"

datatype plugin_object = NodeExecutorGRPC stub

definition NodeExecutorPlugin_Server :: "NodeExecutor \<Rightarrow> 'broker \<Rightarrow> error + plugin_object" where
  "NodeExecutorPlugin_Server p broker = Inl (ErrorString ''NetRPC is not supported'')"

definition NodeExecutorPlugin_Client ::
  "NodeExecutor \<Rightarrow> 'broker \<Rightarrow> 'rpc \<Rightarrow> error + plugin_object" where
  "NodeExecutorPlugin_Client p broker c = Inl (ErrorString ''NetRPC is not supported'')"

definition NodeExecutorPlugin_GRPCServer ::
  "NodeExecutor \<Rightarrow> 'broker \<Rightarrow> NodeExecutor option \<Rightarrow> NodeExecutor option \<times> error option" where
  "NodeExecutorPlugin_GRPCServer p broker s = (Some p, None)"

definition NodeExecutorPlugin_GRPCClient ::
  "NodeExecutor \<Rightarrow> 'broker \<Rightarrow> stub \<Rightarrow> error + plugin_object" where
  "NodeExecutorPlugin_GRPCClient p broker c = Inr (NodeExecutorGRPC c)"

section \<open>The gRPC adapters\<close>




section \<open>Notions used to state the properties\<close>

text \<open>The nodes of a tree in pre-order, nil children left out.\<close>

fun subnodes :: "Node \<Rightarrow> Node list"
  and subnodes_list :: "Node option list \<Rightarrow> Node list"
where
  "subnodes (Node i u w ns d r f) = Node i u w ns d r f # subnodes_list d @ subnodes_list f"
| "subnodes_list [] = []"
| "subnodes_list (None # rest) = subnodes_list rest"
| "subnodes_list (Some n # rest) = subnodes n @ subnodes_list rest"

fun psubnodes :: "PNode \<Rightarrow> PNode list"
  and psubnodes_list :: "PNode option list \<Rightarrow> PNode list"
where
  "psubnodes (PNode i u w ns d r f) = PNode i u w ns d r f # psubnodes_list d @ psubnodes_list f"
| "psubnodes_list [] = []"
| "psubnodes_list (None # rest) = psubnodes_list rest"
| "psubnodes_list (Some n # rest) = psubnodes n @ psubnodes_list rest"

text \<open>The guarded decoding of the \<open>Retries\<close> blob, as \<open>fromProtoNode\<close> has it inline.\<close>

definition decode_retries_blob :: "blob \<Rightarrow> error + Retries option" where
  "decode_retries_blob r =
     (if length r > 0 \<and> r \<noteq> ''null'' then json_Unmarshal_retries r else Inr None)"


section \<open>Notions used to state the round trips\<close>













section \<open>The node codec on a store of nodes\<close>

text \<open>
  A Go \<open>Node\<close> holds pointers to its children, so a value built by a caller may share
  nodes or close a cycle, which the datatype \<open>Node\<close> cannot express.  To speak about
  that, the two recursive functions are modelled once more over a store: addresses are
  natural numbers and a child is an address or nil.  The
  first argument bounds the depth of the nested calls; \<open>None\<close> means that the bound was
  reached before the call returned.  The envelopes that \<open>toProtoNode\<close> builds are freshly
  allocated, so its result is a \<open>PNode\<close> tree; the same holds for the nodes that
  \<open>fromProtoNode\<close> builds.
\<close>

record HNode =
  hID :: string
  hUses :: string
  hWith :: gmap
  hNeeds :: "string list"
  hDo :: "nat option list"
  hRetries :: "Retries option"
  hOnFailure :: "nat option list"

record PHNode =
  phId :: string
  phUses :: string
  phWith :: blob
  phNeeds :: "string list"
  phDo :: "nat option list"
  phRetries :: blob
  phOnFailure :: "nat option list"

function toProtoNode_heap ::
    "nat \<Rightarrow> (nat \<Rightarrow> HNode) \<Rightarrow> nat option \<Rightarrow> (error + PNode option) option"
  and toProtoNodes_heap ::
    "nat \<Rightarrow> (nat \<Rightarrow> HNode) \<Rightarrow> nat option list \<Rightarrow> (error + PNode option list) option"
where
  "toProtoNode_heap 0 h p = None"
| "toProtoNode_heap (Suc k) h None = Some (Inr None)"
| "toProtoNode_heap (Suc k) h (Some a) =
     (case json_Marshal_map (hWith (h a)) of
        Inl err \<Rightarrow> Some (Inl err)
      | Inr with \<Rightarrow>
          (case toProtoNodes_heap k h (hDo (h a)) of
             None \<Rightarrow> None
           | Some (Inl err) \<Rightarrow> Some (Inl err)
           | Some (Inr doNodes) \<Rightarrow>
               (case json_Marshal_retries (hRetries (h a)) of
                  Inl err \<Rightarrow> Some (Inl err)
                | Inr retries \<Rightarrow>
                    (case toProtoNodes_heap k h (hOnFailure (h a)) of
                       None \<Rightarrow> None
                     | Some (Inl err) \<Rightarrow> Some (Inl err)
                     | Some (Inr onFailureNodes) \<Rightarrow>
                         Some (Inr (Some (PNode (hID (h a)) (hUses (h a)) with (hNeeds (h a))
                                           doNodes retries onFailureNodes)))))))"
| "toProtoNodes_heap k h [] = Some (Inr [])"
| "toProtoNodes_heap k h (p # rest) =
     (case toProtoNode_heap k h p of
        None \<Rightarrow> None
      | Some (Inl err) \<Rightarrow> Some (Inl err)
      | Some (Inr pn) \<Rightarrow>
          (case toProtoNodes_heap k h rest of
             None \<Rightarrow> None
           | Some (Inl err) \<Rightarrow> Some (Inl err)
           | Some (Inr pns) \<Rightarrow> Some (Inr (pn # pns))))"
  by pat_completeness auto
termination
  by (relation "inv_image (less_than <*lex*> less_than)
        (\<lambda>x. case x of Inl (k, h, p) \<Rightarrow> (k, 0) | Inr (k, h, ps) \<Rightarrow> (k, Suc (length ps)))")
     auto

function fromProtoNode_heap ::
    "nat \<Rightarrow> (nat \<Rightarrow> PHNode) \<Rightarrow> nat option \<Rightarrow> (error + Node) option"
  and fromProtoNodes_heap ::
    "nat \<Rightarrow> (nat \<Rightarrow> PHNode) \<Rightarrow> nat option list \<Rightarrow> (error + Node option list) option"
where
  "fromProtoNode_heap 0 h p = None"
| "fromProtoNode_heap (Suc k) h None = Some (Inr zero_Node)"
| "fromProtoNode_heap (Suc k) h (Some a) =
     (case json_Unmarshal_map (phWith (h a)) of
        Inl err \<Rightarrow> Some (Inl err)
      | Inr with \<Rightarrow>
          (case fromProtoNodes_heap k h (phDo (h a)) of
             None \<Rightarrow> None
           | Some (Inl err) \<Rightarrow> Some (Inl err)
           | Some (Inr doNodes) \<Rightarrow>
               (case (if length (phRetries (h a)) > 0 \<and> phRetries (h a) \<noteq> ''null''
                      then json_Unmarshal_retries (phRetries (h a)) else Inr None) of
                  Inl err \<Rightarrow> Some (Inl err)
                | Inr retries \<Rightarrow>
                    (case fromProtoNodes_heap k h (phOnFailure (h a)) of
                       None \<Rightarrow> None
                     | Some (Inl err) \<Rightarrow> Some (Inl err)
                     | Some (Inr onFailureNodes) \<Rightarrow>
                         Some (Inr (Node (phId (h a)) (phUses (h a)) with (phNeeds (h a))
                                     doNodes retries onFailureNodes))))))"
| "fromProtoNodes_heap k h [] = Some (Inr [])"
| "fromProtoNodes_heap k h (p # rest) =
     (case fromProtoNode_heap k h p of
        None \<Rightarrow> None
      | Some (Inl err) \<Rightarrow> Some (Inl err)
      | Some (Inr dn) \<Rightarrow>
          (case fromProtoNodes_heap k h rest of
             None \<Rightarrow> None
           | Some (Inl err) \<Rightarrow> Some (Inl err)
           | Some (Inr dns) \<Rightarrow> Some (Inr (Some dn # dns))))"
  by pat_completeness auto
termination
  by (relation "inv_image (less_than <*lex*> less_than)
        (\<lambda>x. case x of Inl (k, h, p) \<Rightarrow> (k, 0) | Inr (k, h, ps) \<Rightarrow> (k, Suc (length ps)))")
     auto






text \<open>
  The tree that the store holds below a pointer, unfolded to a depth: the \<open>Node\<close>, or the
  envelope, that the functions on the datatypes take.
\<close>

function node_at :: "nat \<Rightarrow> (nat \<Rightarrow> HNode) \<Rightarrow> nat option \<Rightarrow> Node option option"
  and nodes_at :: "nat \<Rightarrow> (nat \<Rightarrow> HNode) \<Rightarrow> nat option list \<Rightarrow> Node option list option"
where
  "node_at 0 h p = None"
| "node_at (Suc k) h None = Some None"
| "node_at (Suc k) h (Some a) =
     (case nodes_at k h (hDo (h a)) of
        None \<Rightarrow> None
      | Some d \<Rightarrow>
          (case nodes_at k h (hOnFailure (h a)) of
             None \<Rightarrow> None
           | Some f \<Rightarrow>
               Some (Some (Node (hID (h a)) (hUses (h a)) (hWith (h a)) (hNeeds (h a)) d
                            (hRetries (h a)) f))))"
| "nodes_at k h [] = Some []"
| "nodes_at k h (p # rest) =
     (case node_at k h p of
        None \<Rightarrow> None
      | Some n \<Rightarrow> (case nodes_at k h rest of None \<Rightarrow> None | Some ns \<Rightarrow> Some (n # ns)))"
  by pat_completeness auto
termination
  by (relation "inv_image (less_than <*lex*> less_than)
        (\<lambda>x. case x of Inl (k, h, p) \<Rightarrow> (k, 0) | Inr (k, h, ps) \<Rightarrow> (k, Suc (length ps)))")
     auto

function pnode_at :: "nat \<Rightarrow> (nat \<Rightarrow> PHNode) \<Rightarrow> nat option \<Rightarrow> PNode option option"
  and pnodes_at :: "nat \<Rightarrow> (nat \<Rightarrow> PHNode) \<Rightarrow> nat option list \<Rightarrow> PNode option list option"
where
  "pnode_at 0 h p = None"
| "pnode_at (Suc k) h None = Some None"
| "pnode_at (Suc k) h (Some a) =
     (case pnodes_at k h (phDo (h a)) of
        None \<Rightarrow> None
      | Some d \<Rightarrow>
          (case pnodes_at k h (phOnFailure (h a)) of
             None \<Rightarrow> None
           | Some f \<Rightarrow>
               Some (Some (PNode (phId (h a)) (phUses (h a)) (phWith (h a)) (phNeeds (h a)) d
                            (phRetries (h a)) f))))"
| "pnodes_at k h [] = Some []"
| "pnodes_at k h (p # rest) =
     (case pnode_at k h p of
        None \<Rightarrow> None
      | Some n \<Rightarrow> (case pnodes_at k h rest of None \<Rightarrow> None | Some ns \<Rightarrow> Some (n # ns)))"
  by pat_completeness auto
termination
  by (relation "inv_image (less_than <*lex*> less_than)
        (\<lambda>x. case x of Inl (k, h, p) \<Rightarrow> (k, 0) | Inr (k, h, ps) \<Rightarrow> (k, Suc (length ps)))")
     auto

section \<open>Evaluations of the parser\<close>

lemma parse_json_null: "parse_json ''null'' = Inr JNull"
  by code_simp


lemma parse_json_x: "parse_json ''x'' = Inl SyntaxError"
  by code_simp


section \<open>Where the errors of the node codec come from\<close>

lemma fromProtoNode_fold:
  "fromProtoNode (Some (PNode i u w ns d r f)) =
     (case json_Unmarshal_map w of
        Inl err \<Rightarrow> Inl err
      | Inr with \<Rightarrow>
          (case fromProtoNodes d of
             Inl err \<Rightarrow> Inl err
           | Inr doNodes \<Rightarrow>
               (case decode_retries_blob r of
                  Inl err \<Rightarrow> Inl err
                | Inr retries \<Rightarrow>
                    (case fromProtoNodes f of
                       Inl err \<Rightarrow> Inl err
                     | Inr onFailureNodes \<Rightarrow>
                         Inr (Node i u with ns doNodes retries onFailureNodes)))))"
  unfolding decode_retries_blob_def by (rule fromProtoNode.simps(2))

lemma toProto_error_origin:
  "\<forall>n e. x = Some n \<longrightarrow> toProtoNode x = Inl e \<longrightarrow>
      (\<exists>m \<in> set (subnodes n).
         json_Marshal_map (With m) = Inl e \<or> json_Marshal_retries (Retries m) = Inl e)"
  "\<forall>e. toProtoNodes xs = Inl e \<longrightarrow>
      (\<exists>m \<in> set (subnodes_list xs).
         json_Marshal_map (With m) = Inl e \<or> json_Marshal_retries (Retries m) = Inl e)"
proof (induction x and xs rule: toProtoNode_toProtoNodes.induct)
  case 1
  show ?case by simp
next
  case (2 i u w ns d r f)
  then show ?case by (fastforce split: sum.splits)
next
  case 3
  show ?case by simp
next
  case (4 n rest)
  then show ?case by (cases n) (fastforce split: sum.splits)+
qed

lemma toProto_ok_all:
  "\<forall>n r. x = Some n \<longrightarrow> toProtoNode x = Inr r \<longrightarrow>
      (\<forall>m \<in> set (subnodes n).
         (\<exists>b. json_Marshal_map (With m) = Inr b) \<and> (\<exists>b. json_Marshal_retries (Retries m) = Inr b))"
  "\<forall>r. toProtoNodes xs = Inr r \<longrightarrow>
      (\<forall>m \<in> set (subnodes_list xs).
         (\<exists>b. json_Marshal_map (With m) = Inr b) \<and> (\<exists>b. json_Marshal_retries (Retries m) = Inr b))"
proof (induction x and xs rule: toProtoNode_toProtoNodes.induct)
  case 1
  show ?case by simp
next
  case (2 i u w ns d r f)
  then show ?case by (fastforce split: sum.splits)
next
  case 3
  show ?case by simp
next
  case (4 n rest)
  then show ?case by (cases n) (fastforce split: sum.splits)+
qed

lemma fromProto_error_origin:
  "\<forall>n e. x = Some n \<longrightarrow> fromProtoNode x = Inl e \<longrightarrow>
      (\<exists>m \<in> set (psubnodes n).
         json_Unmarshal_map (pWith m) = Inl e \<or> decode_retries_blob (pRetries m) = Inl e)"
  "\<forall>e. fromProtoNodes xs = Inl e \<longrightarrow>
      (\<exists>m \<in> set (psubnodes_list xs).
         json_Unmarshal_map (pWith m) = Inl e \<or> decode_retries_blob (pRetries m) = Inl e)"
proof (induction x and xs rule: fromProtoNode_fromProtoNodes.induct)
  case 1
  show ?case by simp
next
  case (2 i u w ns d r f)
  then show ?case unfolding decode_retries_blob_def [symmetric] fromProtoNode_fold
    by (fastforce split: sum.splits)
next
  case 3
  show ?case by simp
next
  case (4 n rest)
  then show ?case by (cases n) (fastforce split: sum.splits)+
qed

lemma fromProto_ok_all:
  "\<forall>n r. x = Some n \<longrightarrow> fromProtoNode x = Inr r \<longrightarrow>
      (\<forall>m \<in> set (psubnodes n).
         (\<exists>b. json_Unmarshal_map (pWith m) = Inr b) \<and> (\<exists>b. decode_retries_blob (pRetries m) = Inr b))"
  "\<forall>r. fromProtoNodes xs = Inr r \<longrightarrow>
      (\<forall>m \<in> set (psubnodes_list xs).
         (\<exists>b. json_Unmarshal_map (pWith m) = Inr b) \<and> (\<exists>b. decode_retries_blob (pRetries m) = Inr b))"
proof (induction x and xs rule: fromProtoNode_fromProtoNodes.induct)
  case 1
  show ?case by simp
next
  case (2 i u w ns d r f)
  then show ?case unfolding decode_retries_blob_def [symmetric] fromProtoNode_fold
    by (fastforce split: sum.splits)
next
  case 3
  show ?case by simp
next
  case (4 n rest)
  then show ?case by (cases n) (fastforce split: sum.splits)+
qed

section \<open>Parsing what was rendered: numbers and strings\<close>














lemma lt16_cases:
  "(d::nat) < 16 \<Longrightarrow> d = 0 \<or> d = 1 \<or> d = 2 \<or> d = 3 \<or> d = 4 \<or> d = 5 \<or> d = 6 \<or> d = 7
     \<or> d = 8 \<or> d = 9 \<or> d = 10 \<or> d = 11 \<or> d = 12 \<or> d = 13 \<or> d = 14 \<or> d = 15"
  by arith

lemma hex_val_hex_char: "d < 16 \<Longrightarrow> hex_val (hex_char d) = Some d"
  using lt16_cases [of d] by (auto simp: hex_char_def hex_val_def)

lemma hex_val_0: "hex_val (CHR ''0'') = Some 0"
  by (simp add: hex_val_def)

lemma unescape_u_hex:
  assumes "(of_char c :: nat) < 128"
  shows "unescape_u (CHR ''0'') (CHR ''0'') (hex_char (of_char c div 16)) (hex_char (of_char c mod 16)) = Inr c"
proof -
  from assms have "(of_char c :: nat) div 16 < 16" by simp
  then show ?thesis
    using assms by (simp add: unescape_u_def hex_val_0 hex_val_hex_char)
qed

lemma parse_str_escape_char:
  assumes "(of_char c :: nat) < 128"
  shows "parse_str (escape_char c @ t) = cons_str c (parse_str t)"
  using assms
  by (subst parse_str.simps)
     (auto simp: escape_char_def unescape_short_def unescape_u_hex [OF assms])

lemma parse_str_escaped:
  assumes "ascii s"
  shows "parse_str (concat (map escape_char s) @ dq # rest) = Inr (s, rest)"
  using assms
proof (induction s)
  case Nil
  show ?case by (subst parse_str.simps) simp
next
  case (Cons c s)
  then show ?case by (simp add: ascii_def parse_str_escape_char cons_str_def)
qed

lemma parse_str_quote:
  "ascii s \<Longrightarrow> parse_str (tl (quote s) @ rest) = Inr (s, rest)"
  by (simp add: quote_def parse_str_escaped)

section \<open>Parsing what was rendered: values\<close>

























section \<open>Decoding what was encoded: Go values\<close>










section \<open>Termination on a store\<close>








text \<open>
  On a store that holds a tree, the functions on the store return what the functions on
  the datatypes return for that tree.
\<close>

lemma toProtoNode_heap_refines:
  "\<forall>n. node_at k h p = Some n \<longrightarrow> toProtoNode_heap k h p = Some (toProtoNode n)"
  "\<forall>ns. nodes_at k h ps = Some ns \<longrightarrow> toProtoNodes_heap k h ps = Some (toProtoNodes ns)"
proof (induction k h p and k h ps rule: node_at_nodes_at.induct)
  case (1 h p)
  show ?case by simp
next
  case (2 k h)
  show ?case by simp
next
  case (3 k h a)
  then show ?case by (auto split: sum.splits option.splits)
next
  case (4 k h)
  show ?case by simp
next
  case (5 k h p rest)
  then show ?case by (auto split: sum.splits option.splits)
qed

lemma fromProtoNode_heap_refines:
  "\<forall>n. pnode_at k h p = Some n \<longrightarrow> fromProtoNode_heap k h p = Some (fromProtoNode n)"
  "\<forall>ns. pnodes_at k h ps = Some ns \<longrightarrow> fromProtoNodes_heap k h ps = Some (fromProtoNodes ns)"
proof (induction k h p and k h ps rule: pnode_at_pnodes_at.induct)
  case (1 h p)
  show ?case by simp
next
  case (2 k h)
  show ?case by simp
next
  case (3 k h a)
  then show ?case by (auto split: sum.splits option.splits)
next
  case (4 k h)
  show ?case by simp
next
  case (5 k h p rest)
  then show ?case by (auto split: sum.splits option.splits)
qed

section \<open>Decoding what was encoded: nodes\<close>


section \<open>Nil inputs and the legacy transport\<close>

text \<open>
  C9.  Encoding a nil \<open>*Node\<close> returns a nil envelope and no error, and decoding a nil
  envelope returns the zero-valued \<open>Node\<close> and no error.
\<close>

theorem codec_total_on_nil:
  "toProtoNode None = Inr None \<and> fromProtoNode None = Inr (Node [] [] None [] [] None [])"
  by (simp add: zero_Node_def)

text \<open>
  C7.  Both net/rpc entry points of the plugin fail with the explicit error
  \<open>NetRPC is not supported\<close>, whatever the plugin and the broker, and so never return a
  transport object; the gRPC entry points succeed.
\<close>

theorem netrpc_always_rejected:
  "NodeExecutorPlugin_Server p broker = Inl (ErrorString ''NetRPC is not supported'')
   \<and> NodeExecutorPlugin_Client p broker' c = Inl (ErrorString ''NetRPC is not supported'')
   \<and> (\<nexists>obj. NodeExecutorPlugin_Server p broker = Inr obj)
   \<and> (\<nexists>obj. NodeExecutorPlugin_Client p broker' c = Inr obj)
   \<and> NodeExecutorPlugin_GRPCServer p gbroker s = (Some p, None)
   \<and> NodeExecutorPlugin_GRPCClient p gbroker conn = Inr (NodeExecutorGRPC conn)"
  by (simp add: NodeExecutorPlugin_Server_def NodeExecutorPlugin_Client_def
      NodeExecutorPlugin_GRPCServer_def NodeExecutorPlugin_GRPCClient_def)


section \<open>Failures of the codec\<close>

text \<open>
  C4, as the claim states it, fails: a malformed \<open>With\<close> blob and a malformed \<open>Retries\<close>
  blob make \<open>fromProtoNode\<close> return the very same error, the one \<open>json.Unmarshal\<close>
  gave, so the error does not carry the name of the field that was being converted.
\<close>

theorem codec_error_names_no_field_counterexample:
  "fromProtoNode (Some (PNode ''n1'' ''log'' ''x'' [] [] ''null'' [])) = Inl SyntaxError
   \<and> fromProtoNode (Some (PNode ''n1'' ''log'' ''null'' [] [] ''x'' [])) = Inl SyntaxError"
  by (simp add: json_Unmarshal_map_def json_Unmarshal_retries_def parse_json_x parse_json_null)

text \<open>
  C4, amended.  A failure of \<open>toProtoNode\<close> or \<open>fromProtoNode\<close> is the error that
  \<open>json.Marshal\<close> or \<open>json.Unmarshal\<close> returned for the \<open>With\<close> or \<open>Retries\<close> of a node of
  the tree, passed on unchanged; and no failure is swallowed: when the call succeeds,
  every such conversion in the tree has succeeded.
\<close>

theorem codec_errors_are_the_json_errors:
  "(toProtoNode (Some n) = Inl e \<longrightarrow>
      (\<exists>m \<in> set (subnodes n).
         json_Marshal_map (With m) = Inl e \<or> json_Marshal_retries (Retries m) = Inl e))
   \<and> (fromProtoNode (Some p) = Inl e' \<longrightarrow>
      (\<exists>q \<in> set (psubnodes p).
         json_Unmarshal_map (pWith q) = Inl e' \<or> decode_retries_blob (pRetries q) = Inl e'))
   \<and> (toProtoNode (Some n') = Inr r \<longrightarrow>
      (\<forall>m \<in> set (subnodes n').
         (\<exists>b. json_Marshal_map (With m) = Inr b)
         \<and> (\<exists>b. json_Marshal_retries (Retries m) = Inr b)))
   \<and> (fromProtoNode (Some p') = Inr r' \<longrightarrow>
      (\<forall>q \<in> set (psubnodes p').
         (\<exists>b. json_Unmarshal_map (pWith q) = Inr b)
         \<and> (\<exists>b. decode_retries_blob (pRetries q) = Inr b)))"
  using toProto_error_origin(1) [of "Some n"] fromProto_error_origin(1) [of "Some p"]
    toProto_ok_all(1) [of "Some n'"] fromProto_ok_all(1) [of "Some p'"]
  by blast

theorem codec_errors_are_the_json_errors_witness:
  "toProtoNode (Some (Node ''n1'' ''log'' None []
       [Some (Node ''n2'' ''log'' (Some [(''k'', GChan)]) [] [] None [])] None [])) =
     Inl (UnsupportedTypeError ''chan int'')
   \<and> json_Marshal_map (Some [(''k'', GChan)]) = Inl (UnsupportedTypeError ''chan int'')
   \<and> fromProtoNode (Some (PNode ''n1'' ''log'' ''null'' [] [] ''x'' [])) = Inl SyntaxError
   \<and> (json_Unmarshal_map ''null'' = Inl SyntaxError \<or> decode_retries_blob ''x'' = Inl SyntaxError)
   \<and> toProtoNode (Some (Node ''n1'' ''log'' None [] [] None [])) =
       Inr (Some (PNode ''n1'' ''log'' ''null'' [] [] ''null'' []))
   \<and> (\<exists>b. json_Marshal_map None = Inr b) \<and> (\<exists>b. json_Marshal_retries None = Inr b)
   \<and> fromProtoNode (Some (PNode ''n1'' ''log'' ''null'' [] [] ''null'' [])) =
       Inr (Node ''n1'' ''log'' None [] [] None [])
   \<and> (\<exists>b. json_Unmarshal_map ''null'' = Inr b) \<and> (\<exists>b. decode_retries_blob ''null'' = Inr b)"
proof -
  let ?n = "Node ''n1'' ''log'' None []
       [Some (Node ''n2'' ''log'' (Some [(''k'', GChan)]) [] [] None [])] None []"
  let ?p = "PNode ''n1'' ''log'' ''null'' [] [] ''x'' []"
  let ?n' = "Node ''n1'' ''log'' None [] [] None []"
  let ?p' = "PNode ''n1'' ''log'' ''null'' [] [] ''null'' []"
  have h1: "toProtoNode (Some ?n) = Inl (UnsupportedTypeError ''chan int'')"
    by (simp add: json_Marshal_map_def json_Marshal_def box_map_def ascii_def)
  have h2: "fromProtoNode (Some ?p) = Inl SyntaxError"
    by (simp add: json_Unmarshal_map_def json_Unmarshal_retries_def parse_json_x parse_json_null)
  have h3: "toProtoNode (Some ?n') = Inr (Some ?p')"
    by (simp add: json_Marshal_map_def json_Marshal_def box_map_def json_Marshal_retries_def)
  have h4: "fromProtoNode (Some ?p') = Inr ?n'"
    by (simp add: json_Unmarshal_map_def parse_json_null)
  from codec_errors_are_the_json_errors
    [of ?n "UnsupportedTypeError ''chan int''" ?p SyntaxError ?n' "Some ?p'" ?p' ?n']
    h1 h2 h3 h4
  show ?thesis
    by (simp add: json_Marshal_map_def json_Marshal_def box_map_def ascii_def
        json_Marshal_retries_def json_Unmarshal_map_def parse_json_null decode_retries_blob_def)
qed


section \<open>Failures of Execute\<close>



section \<open>Empty blobs and blobs of the wrong kind\<close>

text \<open>
  C6.  An empty result blob decodes to nil and no error.  A context envelope whose four
  blobs are empty decodes, with no error, to nil maps (the one in \<open>CurrentItem\<close> boxed).
  For any context envelope, an error of the decoding is the error of a non-empty blob,
  and in a successful decoding each empty blob has given the nil map.
\<close>

theorem empty_blobs_decode_to_absent:
  "fromProtoValue [] = Inr GNil
   \<and> fromProtoExecutionContext
        (Some \<lparr>pTriggerData = [], pNodeOutputs = [], pSecrets = s, pCurrentItem = [],
               pFailureData = []\<rparr>) =
      Inr \<lparr>TriggerData = None, NodeOutputs = None, Secrets = s, CurrentItem = GNilMap,
           FailureData = None\<rparr>
   \<and> (fromProtoExecutionContext (Some p) = Inl e \<longrightarrow>
        (\<exists>b \<in> {pTriggerData p, pNodeOutputs p, pCurrentItem p, pFailureData p}.
           b \<noteq> [] \<and> json_Unmarshal_map b = Inl e))
   \<and> (fromProtoExecutionContext (Some p') = Inr c \<longrightarrow>
        (pTriggerData p' = [] \<longrightarrow> TriggerData c = None)
        \<and> (pNodeOutputs p' = [] \<longrightarrow> NodeOutputs c = None)
        \<and> (pCurrentItem p' = [] \<longrightarrow> CurrentItem c = GNilMap)
        \<and> (pFailureData p' = [] \<longrightarrow> FailureData c = None))"
proof -
  have v: "fromProtoValue [] = Inr GNil"
    by (simp add: fromProtoValue_def)
  have a: "fromProtoExecutionContext
        (Some \<lparr>pTriggerData = [], pNodeOutputs = [], pSecrets = s, pCurrentItem = [],
               pFailureData = []\<rparr>) =
      Inr \<lparr>TriggerData = None, NodeOutputs = None, Secrets = s, CurrentItem = GNilMap,
           FailureData = None\<rparr>"
    by (simp add: fromProtoExecutionContext_def box_map_def)
  have b: "fromProtoExecutionContext (Some p) = Inl e \<longrightarrow>
        (\<exists>b \<in> {pTriggerData p, pNodeOutputs p, pCurrentItem p, pFailureData p}.
           b \<noteq> [] \<and> json_Unmarshal_map b = Inl e)"
    by (auto simp: fromProtoExecutionContext_def split: sum.splits if_splits)
  have c: "fromProtoExecutionContext (Some p') = Inr c \<longrightarrow>
        (pTriggerData p' = [] \<longrightarrow> TriggerData c = None)
        \<and> (pNodeOutputs p' = [] \<longrightarrow> NodeOutputs c = None)
        \<and> (pCurrentItem p' = [] \<longrightarrow> CurrentItem c = GNilMap)
        \<and> (pFailureData p' = [] \<longrightarrow> FailureData c = None)"
    by (auto simp: fromProtoExecutionContext_def box_map_def split: sum.splits if_splits)
  from v a b c show ?thesis by blast
qed

theorem empty_blobs_decode_to_absent_witness:
  "fromProtoExecutionContext
      (Some \<lparr>pTriggerData = [], pNodeOutputs = [], pSecrets = None, pCurrentItem = ''x'',
             pFailureData = []\<rparr>) = Inl SyntaxError
   \<and> json_Unmarshal_map ''x'' = Inl SyntaxError
   \<and> fromProtoExecutionContext
      (Some \<lparr>pTriggerData = [], pNodeOutputs = ''null'', pSecrets = None, pCurrentItem = [],
             pFailureData = []\<rparr>) =
      Inr \<lparr>TriggerData = None, NodeOutputs = None, Secrets = None, CurrentItem = GNilMap,
           FailureData = None\<rparr>"
proof -
  let ?p = "\<lparr>pTriggerData = [], pNodeOutputs = [], pSecrets = None, pCurrentItem = ''x'',
             pFailureData = []\<rparr>"
  let ?p' = "\<lparr>pTriggerData = [], pNodeOutputs = ''null'', pSecrets = None,
             pCurrentItem = [], pFailureData = []\<rparr>"
  let ?c = "\<lparr>TriggerData = None, NodeOutputs = None, Secrets = None, CurrentItem = GNilMap,
           FailureData = None\<rparr>"
  have h1: "fromProtoExecutionContext (Some ?p) = Inl SyntaxError"
    by (simp add: fromProtoExecutionContext_def json_Unmarshal_map_def parse_json_x)
  have h2: "fromProtoExecutionContext (Some ?p') = Inr ?c"
    by (simp add: fromProtoExecutionContext_def json_Unmarshal_map_def parse_json_null box_map_def)
  from empty_blobs_decode_to_absent [of None ?p SyntaxError ?p' ?c] h1 h2
  show ?thesis by simp
qed




section \<open>Termination of the recursion\<close>




section \<open>Round trips\<close>










end
